theory Spec2Isabelle
  imports Complex_Main
begin

section \<open>Coupling elements of a rotor model (\<open>ross/coupling_element.py\<close>)\<close>

text \<open>
  The module builds, for a coupling between two shaft stations, the local mass, stiffness,
  damping and gyroscopic matrices. Python floats are idealised as \<^typ>\<open>real\<close>: the
  matrix builders only copy and negate their parameters, and the constructor only halves
  and adds them. The conversion of integer arguments by \<open>float\<close>, with its rounding and
  its \<open>OverflowError\<close>, is modelled on the integers. The decorator \<open>check_units\<close> lives in another module; the arguments
  are taken as plain numbers already in SI units, on which the decorator is the identity.
\<close>

subsection \<open>Matrices as numpy builds them\<close>

type_synonym matrix = "real list list"

text \<open>\<open>np.zeros((r, c))\<close>.\<close>

definition zeros :: "nat \<Rightarrow> nat \<Rightarrow> matrix" where
  "zeros r c = replicate r (replicate c 0)"

text \<open>
  The slice assignment \<open>A[r0:r1, c0:c1] = B\<close>: rows \<open>r0 \<le> i < r1\<close> and columns
  \<open>c0 \<le> j < c1\<close> of \<open>A\<close> are overwritten with \<open>B[i - r0, j - c0]\<close>, every other
  entry is kept. The source only assigns blocks whose shape is the shape of the slice.
\<close>

definition slice_assign :: "nat \<Rightarrow> nat \<Rightarrow> nat \<Rightarrow> nat \<Rightarrow> matrix \<Rightarrow> matrix \<Rightarrow> matrix" where
  "slice_assign r0 r1 c0 c1 B A =
     map (\<lambda>i. map (\<lambda>j. if r0 \<le> i \<and> i < r1 \<and> c0 \<le> j \<and> j < c1
                         then B ! (i - r0) ! (j - c0) else A ! i ! j)
                [0..<length (A ! i)])
         [0..<length A]"

subsection \<open>Vocabulary of the properties\<close>

text \<open>The matrix with entry \<open>f i j\<close> at row \<open>i\<close>, column \<open>j\<close>, of size \<open>n \<times> n\<close>.\<close>

definition mat_of :: "nat \<Rightarrow> (nat \<Rightarrow> nat \<Rightarrow> real) \<Rightarrow> matrix" where
  "mat_of n f = map (\<lambda>i. map (\<lambda>j. f i j) [0..<n]) [0..<n]"

text \<open>The transpose of a rectangular matrix (\<open>A.T\<close>), and the entrywise negation (\<open>-A\<close>).\<close>

definition transpose_mat :: "matrix \<Rightarrow> matrix" where
  "transpose_mat A =
     (case A of [] \<Rightarrow> []
      | r # _ \<Rightarrow> map (\<lambda>j. map (\<lambda>row. row ! j) A) [0..<length r])"

definition neg_mat :: "matrix \<Rightarrow> matrix" where
  "neg_mat A = map (map uminus) A"

text \<open>Entrywise sum of two matrices of the same shape.\<close>

definition add_mat :: "matrix \<Rightarrow> matrix \<Rightarrow> matrix" where
  "add_mat A B = map2 (map2 (+)) A B"

text \<open>The shape of a matrix: the length of each of its rows, in order.\<close>

definition row_lengths :: "matrix \<Rightarrow> nat list" where
  "row_lengths A = map length A"

text \<open>The main diagonal (\<open>np.diag(A)\<close>) of a square matrix.\<close>

definition diag :: "matrix \<Rightarrow> real list" where
  "diag A = map (\<lambda>i. A ! i ! i) [0..<length A]"

text \<open>The positions, in row-major order, where a matrix is non-zero, and where two
  matrices of the same shape differ.\<close>

definition nonzero_positions :: "matrix \<Rightarrow> (nat \<times> nat) list" where
  "nonzero_positions A =
     concat (map (\<lambda>i. map (\<lambda>j. (i, j)) (filter (\<lambda>j. A ! i ! j \<noteq> 0) [0..<length (A ! i)]))
                 [0..<length A])"

definition diff_positions :: "matrix \<Rightarrow> matrix \<Rightarrow> (nat \<times> nat) list" where
  "diff_positions A B =
     concat (map (\<lambda>i. map (\<lambda>j. (i, j))
                          (filter (\<lambda>j. A ! i ! j \<noteq> B ! i ! j) [0..<length (A ! i)]))
                 [0..<length A])"

subsection \<open>Constructor arguments\<close>

text \<open>
  The keyword arguments of \<open>__init__\<close>. The four required ones are plain numbers; an
  optional one is \<open>None\<close> when the caller omits it, and the signature's default is then
  used (\<open>default\<close> below). For \<open>n\<close>, \<open>L\<close> and \<open>tag\<close> the signature's default is
  Python's \<open>None\<close> itself.
\<close>

record CouplingElement_args =
  arg_m_l :: real
  arg_m_r :: real
  arg_Ip_l :: real
  arg_Ip_r :: real
  arg_Id_l :: "real option"
  arg_Id_r :: "real option"
  arg_kt_x :: "real option"
  arg_kt_y :: "real option"
  arg_kr_x :: "real option"
  arg_kr_y :: "real option"
  arg_ct_x :: "real option"
  arg_ct_y :: "real option"
  arg_cr_x :: "real option"
  arg_cr_y :: "real option"
  arg_L :: "real option"
  arg_n :: "int option"
  arg_tag :: "string option"
  arg_color :: "string option"

record CouplingElement6DoF_args = CouplingElement_args +
  arg_kt_z :: "real option"
  arg_kr_z :: "real option"
  arg_ct_z :: "real option"
  arg_cr_z :: "real option"

definition default :: "'a \<Rightarrow> 'a option \<Rightarrow> 'a" where
  "default d v = (case v of None \<Rightarrow> d | Some x \<Rightarrow> x)"

subsection \<open>The element\<close>

text \<open>
  The attributes that \<open>__init__\<close> assigns. \<open>self.n\<close>, \<open>self.m\<close> and \<open>self.L\<close> are
  written \<open>self_n\<close>, \<open>self_m\<close> and \<open>self_L\<close>. \<open>dof_global_index\<close> is only ever set to
  \<open>None\<close> in this module. The 6-DOF class assigns the same attributes and five more.
\<close>

record CouplingElement =
  self_n :: "int option"
  n_l :: "int option"
  n_r :: "int option"
  m_l :: real
  m_r :: real
  self_m :: real
  Ip_l :: real
  Ip_r :: real
  Id_l :: real
  Id_r :: real
  kt_x :: real
  kt_y :: real
  kr_x :: real
  kr_y :: real
  ct_x :: real
  ct_y :: real
  cr_x :: real
  cr_y :: real
  self_L :: "real option"
  tag :: "string option"
  color :: string
  dof_global_index :: "nat list option"
  beam_cg :: real
  slenderness_ratio :: real
  Im :: real

record CouplingElement6DoF = CouplingElement +
  kt_z :: real
  kr_z :: real
  ct_z :: real
  cr_z :: real
  o_d :: real

text \<open>
  \<open>float(Id) if Id else Ip / 2\<close>: a number is falsy exactly when it is zero, so a
  diametral inertia of zero, which is also the signature's default, is replaced.
\<close>

definition Id_or_half :: "real \<Rightarrow> real \<Rightarrow> real" where
  "Id_or_half Idv Ip = (if Idv \<noteq> 0 then Idv else Ip / 2)"

definition CouplingElement_init :: "CouplingElement_args \<Rightarrow> CouplingElement" where
  "CouplingElement_init a =
     (let Idl = Id_or_half (default 0 (arg_Id_l a)) (arg_Ip_l a);
          Idr = Id_or_half (default 0 (arg_Id_r a)) (arg_Ip_r a)
      in \<lparr> self_n = arg_n a,
           n_l = arg_n a,
           n_r = (case arg_n a of None \<Rightarrow> None | Some k \<Rightarrow> Some (k + 1)),
           m_l = arg_m_l a,
           m_r = arg_m_r a,
           self_m = arg_m_l a + arg_m_r a,
           Ip_l = arg_Ip_l a,
           Ip_r = arg_Ip_r a,
           Id_l = Idl,
           Id_r = Idr,
           kt_x = default 0 (arg_kt_x a),
           kt_y = default 0 (arg_kt_y a),
           kr_x = default 0 (arg_kr_x a),
           kr_y = default 0 (arg_kr_y a),
           ct_x = default 0 (arg_ct_x a),
           ct_y = default 0 (arg_ct_y a),
           cr_x = default 0 (arg_cr_x a),
           cr_y = default 0 (arg_cr_y a),
           self_L = arg_L a,
           tag = arg_tag a,
           color = default ''#add8e6'' (arg_color a),
           dof_global_index = None,
           beam_cg = 10 ^ 20,
           slenderness_ratio = 10 ^ 30,
           Im = Idl + Idr \<rparr>)"

definition CouplingElement6DoF_init :: "CouplingElement6DoF_args \<Rightarrow> CouplingElement6DoF" where
  "CouplingElement6DoF_init a =
     (let Idl = Id_or_half (default 0 (arg_Id_l a)) (arg_Ip_l a);
          Idr = Id_or_half (default 0 (arg_Id_r a)) (arg_Ip_r a)
      in \<lparr> self_n = arg_n a,
           n_l = arg_n a,
           n_r = (case arg_n a of None \<Rightarrow> None | Some k \<Rightarrow> Some (k + 1)),
           m_l = arg_m_l a,
           m_r = arg_m_r a,
           self_m = arg_m_l a + arg_m_r a,
           Ip_l = arg_Ip_l a,
           Ip_r = arg_Ip_r a,
           Id_l = Idl,
           Id_r = Idr,
           kt_x = default 0 (arg_kt_x a),
           kt_y = default 0 (arg_kt_y a),
           kr_x = default 0 (arg_kr_x a),
           kr_y = default 0 (arg_kr_y a),
           ct_x = default 0 (arg_ct_x a),
           ct_y = default 0 (arg_ct_y a),
           cr_x = default 0 (arg_cr_x a),
           cr_y = default 0 (arg_cr_y a),
           self_L = arg_L a,
           tag = arg_tag a,
           color = default ''#add8e6'' (arg_color a),
           dof_global_index = None,
           beam_cg = 10 ^ 20,
           slenderness_ratio = 10 ^ 30,
           Im = Idl + Idr,
           kt_z = default 0 (arg_kt_z a),
           kr_z = default 0 (arg_kr_z a),
           ct_z = default 0 (arg_ct_z a),
           cr_z = default 0 (arg_cr_z a),
           o_d = 150 / 1000 \<rparr>)"

subsection \<open>The matrices of the 4-DOF element\<close>

definition CouplingElement_M :: "CouplingElement \<Rightarrow> matrix" where
  "CouplingElement_M e =
     (let m = m_l e; Id' = Id_l e;
          Ml = [[m, 0, 0, 0],
                [0, m, 0, 0],
                [0, 0, Id', 0],
                [0, 0, 0, Id']];
          m = m_r e; Id' = Id_r e;
          Mr = [[m, 0, 0, 0],
                [0, m, 0, 0],
                [0, 0, Id', 0],
                [0, 0, 0, Id']];
          M = zeros 8 8;
          M = slice_assign 0 4 0 4 Ml M;
          M = slice_assign 4 8 4 8 Mr M
      in M)"

definition CouplingElement_K :: "CouplingElement \<Rightarrow> matrix" where
  "CouplingElement_K e =
     (let k1 = kt_x e; k2 = kt_y e; k3 = kr_x e; k4 = kr_y e
      in [[ k1,   0,   0,   0, -k1,   0,   0,   0],
          [  0,  k2,   0,   0,   0, -k2,   0,   0],
          [  0,   0,  k3,   0,   0,   0, -k3,   0],
          [  0,   0,   0,  k4,   0,   0,   0, -k4],
          [-k1,   0,   0,   0,  k1,   0,   0,   0],
          [  0, -k2,   0,   0,   0,  k2,   0,   0],
          [  0,   0, -k3,   0,   0,   0,  k3,   0],
          [  0,   0,   0, -k4,   0,   0,   0,  k4]])"

definition CouplingElement_C :: "CouplingElement \<Rightarrow> matrix" where
  "CouplingElement_C e =
     (let c1 = ct_x e; c2 = ct_y e; c3 = cr_x e; c4 = cr_y e
      in [[ c1,   0,   0,   0, -c1,   0,   0,   0],
          [  0,  c2,   0,   0,   0, -c2,   0,   0],
          [  0,   0,  c3,   0,   0,   0, -c3,   0],
          [  0,   0,   0,  c4,   0,   0,   0, -c4],
          [-c1,   0,   0,   0,  c1,   0,   0,   0],
          [  0, -c2,   0,   0,   0,  c2,   0,   0],
          [  0,   0, -c3,   0,   0,   0,  c3,   0],
          [  0,   0,   0, -c4,   0,   0,   0,  c4]])"

definition CouplingElement_G :: "CouplingElement \<Rightarrow> matrix" where
  "CouplingElement_G e =
     (let Ip = Ip_l e;
          Gl = [[0, 0, 0, 0],
                [0, 0, 0, 0],
                [0, 0, 0, Ip],
                [0, 0, -Ip, 0]];
          Ip = Ip_r e;
          Gr = [[0, 0, 0, 0],
                [0, 0, 0, 0],
                [0, 0, 0, Ip],
                [0, 0, -Ip, 0]];
          G = zeros 8 8;
          G = slice_assign 0 4 0 4 Gl G;
          G = slice_assign 4 8 4 8 Gr G
      in G)"

subsection \<open>The matrices of the 6-DOF element\<close>

definition CouplingElement6DoF_M :: "CouplingElement6DoF \<Rightarrow> matrix" where
  "CouplingElement6DoF_M e =
     (let m = m_l e; Id' = Id_l e; Ip = Ip_l e;
          Ml = [[m, 0, 0, 0, 0, 0],
                [0, m, 0, 0, 0, 0],
                [0, 0, m, 0, 0, 0],
                [0, 0, 0, Id', 0, 0],
                [0, 0, 0, 0, Id', 0],
                [0, 0, 0, 0, 0, Ip]];
          m = m_r e; Id' = Id_r e; Ip = Ip_r e;
          Mr = [[m, 0, 0, 0, 0, 0],
                [0, m, 0, 0, 0, 0],
                [0, 0, m, 0, 0, 0],
                [0, 0, 0, Id', 0, 0],
                [0, 0, 0, 0, Id', 0],
                [0, 0, 0, 0, 0, Ip]];
          M = zeros 12 12;
          M = slice_assign 0 6 0 6 Ml M;
          M = slice_assign 6 12 6 12 Mr M
      in M)"

definition CouplingElement6DoF_K :: "CouplingElement6DoF \<Rightarrow> matrix" where
  "CouplingElement6DoF_K e =
     (let k1 = kt_x e; k2 = kt_y e; k3 = kt_z e; k4 = kr_x e; k5 = kr_y e; k6 = kr_z e
      in [[ k1,   0,   0,   0,   0,   0, -k1,   0,   0,   0,   0,   0],
          [  0,  k2,   0,   0,   0,   0,   0, -k2,   0,   0,   0,   0],
          [  0,   0,  k3,   0,   0,   0,   0,   0, -k3,   0,   0,   0],
          [  0,   0,   0,  k4,   0,   0,   0,   0,   0, -k4,   0,   0],
          [  0,   0,   0,   0,  k5,   0,   0,   0,   0,   0, -k5,   0],
          [  0,   0,   0,   0,   0,  k6,   0,   0,   0,   0,   0, -k6],
          [-k1,   0,   0,   0,   0,   0,  k1,   0,   0,   0,   0,   0],
          [  0, -k2,   0,   0,   0,   0,   0,  k2,   0,   0,   0,   0],
          [  0,   0, -k3,   0,   0,   0,   0,   0,  k3,   0,   0,   0],
          [  0,   0,   0, -k4,   0,   0,   0,   0,   0,  k4,   0,   0],
          [  0,   0,   0,   0, -k5,   0,   0,   0,   0,   0,  k5,   0],
          [  0,   0,   0,   0,   0, -k6,   0,   0,   0,   0,   0,  k6]])"

definition CouplingElement6DoF_C :: "CouplingElement6DoF \<Rightarrow> matrix" where
  "CouplingElement6DoF_C e =
     (let c1 = ct_x e; c2 = ct_y e; c3 = ct_z e; c4 = cr_x e; c5 = cr_y e; c6 = cr_z e
      in [[ c1,   0,   0,   0,   0,   0, -c1,   0,   0,   0,   0,   0],
          [  0,  c2,   0,   0,   0,   0,   0, -c2,   0,   0,   0,   0],
          [  0,   0,  c3,   0,   0,   0,   0,   0, -c3,   0,   0,   0],
          [  0,   0,   0,  c4,   0,   0,   0,   0,   0, -c4,   0,   0],
          [  0,   0,   0,   0,  c5,   0,   0,   0,   0,   0, -c5,   0],
          [  0,   0,   0,   0,   0,  c6,   0,   0,   0,   0,   0, -c6],
          [-c1,   0,   0,   0,   0,   0,  c1,   0,   0,   0,   0,   0],
          [  0, -c2,   0,   0,   0,   0,   0,  c2,   0,   0,   0,   0],
          [  0,   0, -c3,   0,   0,   0,   0,   0,  c3,   0,   0,   0],
          [  0,   0,   0, -c4,   0,   0,   0,   0,   0,  c4,   0,   0],
          [  0,   0,   0,   0, -c5,   0,   0,   0,   0,   0,  c5,   0],
          [  0,   0,   0,   0,   0, -c6,   0,   0,   0,   0,   0,  c6]])"

definition CouplingElement6DoF_G :: "CouplingElement6DoF \<Rightarrow> matrix" where
  "CouplingElement6DoF_G e =
     (let Ip = Ip_l e;
          Gl = [[0, 0, 0, 0, 0, 0],
                [0, 0, 0, 0, 0, 0],
                [0, 0, 0, 0, 0, 0],
                [0, 0, 0, 0, Ip, 0],
                [0, 0, 0, -Ip, 0, 0],
                [0, 0, 0, 0, 0, 0]];
          Ip = Ip_r e;
          Gr = [[0, 0, 0, 0, 0, 0],
                [0, 0, 0, 0, 0, 0],
                [0, 0, 0, 0, 0, 0],
                [0, 0, 0, 0, Ip, 0],
                [0, 0, 0, -Ip, 0, 0],
                [0, 0, 0, 0, 0, 0]];
          G = zeros 12 12;
          G = slice_assign 0 6 0 6 Gl G;
          G = slice_assign 6 12 6 12 Gr G
      in G)"

definition CouplingElement6DoF_Kst :: "CouplingElement6DoF \<Rightarrow> matrix" where
  "CouplingElement6DoF_Kst e = zeros 12 12"

subsection \<open>Vocabulary of the structural properties\<close>

text \<open>
  Station \<open>0\<close> is the left one, station \<open>1\<close> the right one. With \<open>d\<close> degrees of
  freedom per station, index \<open>i\<close> of a matrix belongs to station \<open>i div d\<close> and to the
  local degree of freedom \<open>i mod d\<close>. The stiffness matrices fix the order of the local
  degrees of freedom: \<open>x, y, rot_x, rot_y\<close> in the 4-DOF element (\<open>kt_x, kt_y, kr_x, kr_y\<close>
  on rows 0 to 3) and \<open>x, y, z, rot_x, rot_y, rot_z\<close> in the 6-DOF element.
\<close>

definition station_m :: "'a CouplingElement_scheme \<Rightarrow> nat \<Rightarrow> real" where
  "station_m e s = (if s = 0 then m_l e else m_r e)"
definition station_Id :: "'a CouplingElement_scheme \<Rightarrow> nat \<Rightarrow> real" where
  "station_Id e s = (if s = 0 then Id_l e else Id_r e)"
definition station_Ip :: "'a CouplingElement_scheme \<Rightarrow> nat \<Rightarrow> real" where
  "station_Ip e s = (if s = 0 then Ip_l e else Ip_r e)"

text \<open>
  The pattern \<open>[[k, -k], [-k, k]]\<close> of one channel, its placement on the rows and columns
  \<open>p\<close> and \<open>q\<close> of an otherwise zero \<open>n \<times> n\<close> matrix, and the sum of the placed patterns
  of all \<open>d\<close> channels, channel \<open>c\<close> pairing index \<open>c\<close> (left) with \<open>c + d\<close> (right).
\<close>

definition pattern2 :: "real \<Rightarrow> matrix" where
  "pattern2 k = [[k, -k], [-k, k]]"

definition scatter_pair :: "nat \<Rightarrow> nat \<Rightarrow> nat \<Rightarrow> matrix \<Rightarrow> matrix" where
  "scatter_pair n p q P =
     mat_of n (\<lambda>i j. if (i = p \<or> i = q) \<and> (j = p \<or> j = q)
                      then P ! (if i = p then 0 else 1) ! (if j = p then 0 else 1) else 0)"

definition channel_sum :: "nat \<Rightarrow> real list \<Rightarrow> matrix" where
  "channel_sum d ks =
     foldr add_mat (map (\<lambda>c. scatter_pair (2 * d) c (c + d) (pattern2 (ks ! c))) [0..<d])
           (zeros (2 * d) (2 * d))"

text \<open>
  The four positions of channel \<open>c\<close>. \<open>zeroes_channel d c k A B\<close>: matrix \<open>B\<close> is zero at
  the four positions of channel \<open>c\<close>, and it differs from \<open>A\<close>, the matrix built with
  coefficient \<open>k\<close> in that channel, at exactly these four positions when \<open>k\<close> is not zero
  (and nowhere when \<open>k\<close> is zero, the two parameter sets being the same then).
\<close>

definition channel_positions :: "nat \<Rightarrow> nat \<Rightarrow> (nat \<times> nat) list" where
  "channel_positions d c = [(c, c), (c, c + d), (c + d, c), (c + d, c + d)]"

definition zeroes_channel :: "nat \<Rightarrow> nat \<Rightarrow> real \<Rightarrow> matrix \<Rightarrow> matrix \<Rightarrow> bool" where
  "zeroes_channel d c k A B \<longleftrightarrow>
     diff_positions A B = (if k = 0 then [] else channel_positions d c) \<and>
     map (\<lambda>(i, j). B ! i ! j) (channel_positions d c) = [0, 0, 0, 0]"

subsection \<open>Concrete parameter sets\<close>

text \<open>
  Unit masses, polar inertias of 2, everything else omitted.
\<close>

definition example_args :: CouplingElement_args where
  "example_args =
     \<lparr> arg_m_l = 1, arg_m_r = 1, arg_Ip_l = 2, arg_Ip_r = 2,
       arg_Id_l = None, arg_Id_r = None,
       arg_kt_x = None, arg_kt_y = None, arg_kr_x = None, arg_kr_y = None,
       arg_ct_x = None, arg_ct_y = None, arg_cr_x = None, arg_cr_y = None,
       arg_L = None, arg_n = None, arg_tag = None, arg_color = None \<rparr>"

subsection \<open>The constructor on Python numbers\<close>

text \<open>
  \<open>CouplingElement_init\<close> and \<open>CouplingElement6DoF_init\<close> above are \<open>__init__\<close> on
  arguments that are floats, on which \<open>float(x)\<close> is the identity. A caller may also pass
  Python integers. \<open>float\<close> rounds an integer to the nearest double, ties to even, and
  raises \<open>OverflowError\<close> when that is beyond the largest double. The definitions below are
  \<open>__init__\<close> on arguments that are integers or floats, with the conversions in the order
  of the source; the first one that raises ends the construction.
\<close>

datatype pynum = PyInt int | PyFloat real

datatype error = OverflowError

text \<open>
  \<open>n.bit_length()\<close> of a natural number, and the nearest number with a 53-bit mantissa
  (ties to even, exponent not bounded) of an integer: with \<open>e\<close> the number of bits beyond
  53, the integer is cut to its leading 53 bits \<open>q\<close>, and \<open>q\<close> is incremented when the
  remainder \<open>r\<close> is more than half of \<open>2 ^ e\<close>, or is half of it and \<open>q\<close> is odd.
  \<open>DBL_MAX\<close> is the largest double.
\<close>

fun bit_length :: "nat \<Rightarrow> nat" where
  "bit_length n = (if n = 0 then 0 else Suc (bit_length (n div 2)))"

declare bit_length.simps [simp del]

definition int_to_double :: "int \<Rightarrow> int" where
  "int_to_double n =
     (let a = nat \<bar>n\<bar>;
          e = (if bit_length a \<le> 53 then 0 else bit_length a - 53);
          q = a div 2 ^ e;
          r = a mod 2 ^ e;
          q' = (if 2 * r > 2 ^ e \<or> (2 * r = 2 ^ e \<and> odd q) then q + 1 else q)
      in sgn n * int (q' * 2 ^ e))"

definition DBL_MAX :: int where
  "DBL_MAX = 2 ^ 1024 - 2 ^ 971"

text \<open>
  \<open>float(v)\<close>; the truth value of a number in a condition; \<open>v / 2\<close>, which for an integer
  is the correctly rounded quotient and raises when that is beyond the largest double; and
  \<open>float(Id) if Id else Ip / 2\<close>.
\<close>

definition py_float :: "pynum \<Rightarrow> error + real" where
  "py_float v =
     (case v of
        PyFloat x \<Rightarrow> Inr x
      | PyInt n \<Rightarrow> (if DBL_MAX < \<bar>int_to_double n\<bar> then Inl OverflowError
                    else Inr (real_of_int (int_to_double n))))"

definition truthy :: "pynum \<Rightarrow> bool" where
  "truthy v = (case v of PyFloat x \<Rightarrow> x \<noteq> 0 | PyInt n \<Rightarrow> n \<noteq> 0)"

definition py_half :: "pynum \<Rightarrow> error + real" where
  "py_half v =
     (case v of
        PyFloat x \<Rightarrow> Inr (x / 2)
      | PyInt n \<Rightarrow> (if 2 * DBL_MAX < \<bar>int_to_double n\<bar> then Inl OverflowError
                    else Inr (real_of_int (int_to_double n) / 2)))"

definition float_Id :: "pynum \<Rightarrow> pynum \<Rightarrow> error + real" where
  "float_Id Idv Ip = (if truthy Idv then py_float Idv else py_half Ip)"

text \<open>A raised exception skips the rest of the body.\<close>

definition bind_err :: "error + 'a \<Rightarrow> ('a \<Rightarrow> error + 'b) \<Rightarrow> error + 'b" where
  "bind_err r f = (case r of Inl e \<Rightarrow> Inl e | Inr x \<Rightarrow> f x)"

text \<open>
  The arguments as numbers. An omitted optional number takes the signature's default, the
  integer \<open>0\<close>. \<open>L\<close> is stored as it is given and is taken as a float or \<open>None\<close>.
\<close>

definition given :: "pynum option \<Rightarrow> pynum" where
  "given v = default (PyInt 0) v"

record CouplingElement_numargs =
  num_m_l :: pynum
  num_m_r :: pynum
  num_Ip_l :: pynum
  num_Ip_r :: pynum
  num_Id_l :: "pynum option"
  num_Id_r :: "pynum option"
  num_kt_x :: "pynum option"
  num_kt_y :: "pynum option"
  num_kr_x :: "pynum option"
  num_kr_y :: "pynum option"
  num_ct_x :: "pynum option"
  num_ct_y :: "pynum option"
  num_cr_x :: "pynum option"
  num_cr_y :: "pynum option"
  num_L :: "real option"
  num_n :: "int option"
  num_tag :: "string option"
  num_color :: "string option"

record CouplingElement6DoF_numargs = CouplingElement_numargs +
  num_kt_z :: "pynum option"
  num_kr_z :: "pynum option"
  num_ct_z :: "pynum option"
  num_cr_z :: "pynum option"

definition CouplingElement_init_num :: "CouplingElement_numargs \<Rightarrow> error + CouplingElement" where
  "CouplingElement_init_num p =
     bind_err (py_float (num_m_l p)) (\<lambda>ml.
     bind_err (py_float (num_m_r p)) (\<lambda>mr.
     bind_err (py_float (num_Ip_l p)) (\<lambda>Ipl.
     bind_err (py_float (num_Ip_r p)) (\<lambda>Ipr.
     bind_err (float_Id (given (num_Id_l p)) (num_Ip_l p)) (\<lambda>Idl.
     bind_err (float_Id (given (num_Id_r p)) (num_Ip_r p)) (\<lambda>Idr.
     bind_err (py_float (given (num_kt_x p))) (\<lambda>ktx.
     bind_err (py_float (given (num_kt_y p))) (\<lambda>kty.
     bind_err (py_float (given (num_kr_x p))) (\<lambda>krx.
     bind_err (py_float (given (num_kr_y p))) (\<lambda>kry.
     bind_err (py_float (given (num_ct_x p))) (\<lambda>ctx.
     bind_err (py_float (given (num_ct_y p))) (\<lambda>cty.
     bind_err (py_float (given (num_cr_x p))) (\<lambda>crx.
     bind_err (py_float (given (num_cr_y p))) (\<lambda>cry.
       Inr \<lparr> self_n = num_n p,
             n_l = num_n p,
             n_r = (case num_n p of None \<Rightarrow> None | Some k \<Rightarrow> Some (k + 1)),
             m_l = ml,
             m_r = mr,
             self_m = ml + mr,
             Ip_l = Ipl,
             Ip_r = Ipr,
             Id_l = Idl,
             Id_r = Idr,
             kt_x = ktx,
             kt_y = kty,
             kr_x = krx,
             kr_y = kry,
             ct_x = ctx,
             ct_y = cty,
             cr_x = crx,
             cr_y = cry,
             self_L = num_L p,
             tag = num_tag p,
             color = default ''#add8e6'' (num_color p),
             dof_global_index = None,
             beam_cg = 10 ^ 20,
             slenderness_ratio = 10 ^ 30,
             Im = Idl + Idr \<rparr>))))))))))))))"

definition CouplingElement6DoF_init_num ::
    "CouplingElement6DoF_numargs \<Rightarrow> error + CouplingElement6DoF" where
  "CouplingElement6DoF_init_num p =
     bind_err (py_float (num_m_l p)) (\<lambda>ml.
     bind_err (py_float (num_m_r p)) (\<lambda>mr.
     bind_err (py_float (num_Ip_l p)) (\<lambda>Ipl.
     bind_err (py_float (num_Ip_r p)) (\<lambda>Ipr.
     bind_err (float_Id (given (num_Id_l p)) (num_Ip_l p)) (\<lambda>Idl.
     bind_err (float_Id (given (num_Id_r p)) (num_Ip_r p)) (\<lambda>Idr.
     bind_err (py_float (given (num_kt_x p))) (\<lambda>ktx.
     bind_err (py_float (given (num_kt_y p))) (\<lambda>kty.
     bind_err (py_float (given (num_kt_z p))) (\<lambda>ktz.
     bind_err (py_float (given (num_kr_x p))) (\<lambda>krx.
     bind_err (py_float (given (num_kr_y p))) (\<lambda>kry.
     bind_err (py_float (given (num_kr_z p))) (\<lambda>krz.
     bind_err (py_float (given (num_ct_x p))) (\<lambda>ctx.
     bind_err (py_float (given (num_ct_y p))) (\<lambda>cty.
     bind_err (py_float (given (num_ct_z p))) (\<lambda>ctz.
     bind_err (py_float (given (num_cr_x p))) (\<lambda>crx.
     bind_err (py_float (given (num_cr_y p))) (\<lambda>cry.
     bind_err (py_float (given (num_cr_z p))) (\<lambda>crz.
       Inr \<lparr> self_n = num_n p,
             n_l = num_n p,
             n_r = (case num_n p of None \<Rightarrow> None | Some k \<Rightarrow> Some (k + 1)),
             m_l = ml,
             m_r = mr,
             self_m = ml + mr,
             Ip_l = Ipl,
             Ip_r = Ipr,
             Id_l = Idl,
             Id_r = Idr,
             kt_x = ktx,
             kt_y = kty,
             kr_x = krx,
             kr_y = kry,
             ct_x = ctx,
             ct_y = cty,
             cr_x = crx,
             cr_y = cry,
             self_L = num_L p,
             tag = num_tag p,
             color = default ''#add8e6'' (num_color p),
             dof_global_index = None,
             beam_cg = 10 ^ 20,
             slenderness_ratio = 10 ^ 30,
             Im = Idl + Idr,
             kt_z = ktz,
             kr_z = krz,
             ct_z = ctz,
             cr_z = crz,
             o_d = 150 / 1000 \<rparr>))))))))))))))))))"

text \<open>
  \<open>converts v\<close>: \<open>float(v)\<close> does not raise, and \<open>as_float v\<close> is then its value. The
  numbers that \<open>__init__\<close> converts, in order. \<open>stored_Id\<close> is the diametral inertia that
  is stored for a given argument and polar inertia.
\<close>

definition converts :: "pynum \<Rightarrow> bool" where
  "converts v = (case v of PyFloat x \<Rightarrow> True | PyInt n \<Rightarrow> \<bar>int_to_double n\<bar> \<le> DBL_MAX)"

definition as_float :: "pynum \<Rightarrow> real" where
  "as_float v = (case v of PyFloat x \<Rightarrow> x | PyInt n \<Rightarrow> real_of_int (int_to_double n))"

definition numeric_args :: "'a CouplingElement_numargs_scheme \<Rightarrow> pynum list" where
  "numeric_args p =
     [num_m_l p, num_m_r p, num_Ip_l p, num_Ip_r p, given (num_Id_l p), given (num_Id_r p),
      given (num_kt_x p), given (num_kt_y p), given (num_kr_x p), given (num_kr_y p),
      given (num_ct_x p), given (num_ct_y p), given (num_cr_x p), given (num_cr_y p)]"

definition numeric_args6 :: "CouplingElement6DoF_numargs \<Rightarrow> pynum list" where
  "numeric_args6 p =
     numeric_args p @ [given (num_kt_z p), given (num_kr_z p), given (num_ct_z p), given (num_cr_z p)]"

definition stored_Id :: "pynum option \<Rightarrow> pynum \<Rightarrow> real" where
  "stored_Id v Ip = (if truthy (given v) then as_float (given v) else as_float Ip / 2)"

text \<open>
  The diagonal matrix of a list, and the block-diagonal matrix with \<open>+Ip\<close> at
  (\<open>rx\<close>, \<open>ry\<close>) and \<open>-Ip\<close> at (\<open>ry\<close>, \<open>rx\<close>) of each station's block of \<open>d\<close> degrees of
  freedom.
\<close>

definition diag_mat :: "real list \<Rightarrow> matrix" where
  "diag_mat ds = mat_of (length ds) (\<lambda>i j. if i = j then ds ! i else 0)"

definition gyro_mat :: "nat \<Rightarrow> nat \<Rightarrow> nat \<Rightarrow> real list \<Rightarrow> matrix" where
  "gyro_mat d rx ry Ips =
     mat_of (2 * d) (\<lambda>i j. if i div d = j div d
                            then (if i mod d = rx \<and> j mod d = ry then Ips ! (i div d)
                                  else if i mod d = ry \<and> j mod d = rx then - (Ips ! (i div d))
                                  else 0)
                            else 0)"

text \<open>Float arguments as numbers.\<close>

definition float_numargs :: "CouplingElement_args \<Rightarrow> CouplingElement_numargs" where
  "float_numargs a =
     \<lparr> num_m_l = PyFloat (arg_m_l a), num_m_r = PyFloat (arg_m_r a),
       num_Ip_l = PyFloat (arg_Ip_l a), num_Ip_r = PyFloat (arg_Ip_r a),
       num_Id_l = map_option PyFloat (arg_Id_l a), num_Id_r = map_option PyFloat (arg_Id_r a),
       num_kt_x = map_option PyFloat (arg_kt_x a), num_kt_y = map_option PyFloat (arg_kt_y a),
       num_kr_x = map_option PyFloat (arg_kr_x a), num_kr_y = map_option PyFloat (arg_kr_y a),
       num_ct_x = map_option PyFloat (arg_ct_x a), num_ct_y = map_option PyFloat (arg_ct_y a),
       num_cr_x = map_option PyFloat (arg_cr_x a), num_cr_y = map_option PyFloat (arg_cr_y a),
       num_L = arg_L a, num_n = arg_n a, num_tag = arg_tag a, num_color = arg_color a \<rparr>"

definition float_numargs6 :: "CouplingElement6DoF_args \<Rightarrow> CouplingElement6DoF_numargs" where
  "float_numargs6 a =
     \<lparr> num_m_l = PyFloat (arg_m_l a), num_m_r = PyFloat (arg_m_r a),
       num_Ip_l = PyFloat (arg_Ip_l a), num_Ip_r = PyFloat (arg_Ip_r a),
       num_Id_l = map_option PyFloat (arg_Id_l a), num_Id_r = map_option PyFloat (arg_Id_r a),
       num_kt_x = map_option PyFloat (arg_kt_x a), num_kt_y = map_option PyFloat (arg_kt_y a),
       num_kr_x = map_option PyFloat (arg_kr_x a), num_kr_y = map_option PyFloat (arg_kr_y a),
       num_ct_x = map_option PyFloat (arg_ct_x a), num_ct_y = map_option PyFloat (arg_ct_y a),
       num_cr_x = map_option PyFloat (arg_cr_x a), num_cr_y = map_option PyFloat (arg_cr_y a),
       num_L = arg_L a, num_n = arg_n a, num_tag = arg_tag a, num_color = arg_color a,
       num_kt_z = map_option PyFloat (arg_kt_z a), num_kr_z = map_option PyFloat (arg_kr_z a),
       num_ct_z = map_option PyFloat (arg_ct_z a), num_cr_z = map_option PyFloat (arg_cr_z a) \<rparr>"

text \<open>
  The unit parameter set as numbers, and parameter sets of negative numbers only, floats
  and integers in turn, for either class.
\<close>

definition example_numargs :: CouplingElement_numargs where
  "example_numargs =
     \<lparr> num_m_l = PyFloat 1, num_m_r = PyFloat 1, num_Ip_l = PyFloat 2, num_Ip_r = PyFloat 2,
       num_Id_l = None, num_Id_r = None,
       num_kt_x = None, num_kt_y = None, num_kr_x = None, num_kr_y = None,
       num_ct_x = None, num_ct_y = None, num_cr_x = None, num_cr_y = None,
       num_L = None, num_n = None, num_tag = None, num_color = None \<rparr>"

definition negative_numargs :: CouplingElement_numargs where
  "negative_numargs =
     \<lparr> num_m_l = PyFloat (- 1), num_m_r = PyInt (- 2),
       num_Ip_l = PyFloat (- 3), num_Ip_r = PyInt (- 4),
       num_Id_l = Some (PyFloat (- 5)), num_Id_r = Some (PyInt (- 6)),
       num_kt_x = Some (PyFloat (- 7)), num_kt_y = Some (PyInt (- 8)),
       num_kr_x = Some (PyFloat (- 9)), num_kr_y = Some (PyInt (- 10)),
       num_ct_x = Some (PyFloat (- 11)), num_ct_y = Some (PyInt (- 12)),
       num_cr_x = Some (PyFloat (- 13)), num_cr_y = Some (PyInt (- 14)),
       num_L = None, num_n = None, num_tag = None, num_color = None \<rparr>"

definition negative_numargs6 :: CouplingElement6DoF_numargs where
  "negative_numargs6 =
     \<lparr> num_m_l = PyFloat (- 1), num_m_r = PyInt (- 2),
       num_Ip_l = PyFloat (- 3), num_Ip_r = PyInt (- 4),
       num_Id_l = Some (PyFloat (- 5)), num_Id_r = Some (PyInt (- 6)),
       num_kt_x = Some (PyFloat (- 7)), num_kt_y = Some (PyInt (- 8)),
       num_kr_x = Some (PyFloat (- 9)), num_kr_y = Some (PyInt (- 10)),
       num_ct_x = Some (PyFloat (- 11)), num_ct_y = Some (PyInt (- 12)),
       num_cr_x = Some (PyFloat (- 13)), num_cr_y = Some (PyInt (- 14)),
       num_L = None, num_n = None, num_tag = None, num_color = None,
       num_kt_z = Some (PyFloat (- 15)), num_kr_z = Some (PyInt (- 16)),
       num_ct_z = Some (PyFloat (- 17)), num_cr_z = Some (PyInt (- 18)) \<rparr>"

section \<open>Properties\<close>

subsection \<open>Evaluation lemmas\<close>

lemma upt4: "[0..<4] = [0, 1, 2, 3]"
  by (simp add: upt_rec)

lemma upt6: "[0..<6] = [0, 1, 2, 3, 4, 5]"
  by (simp add: upt_rec)

lemma upt8: "[0..<8] = [0, 1, 2, 3, 4, 5, 6, 7]"
  by (simp add: upt_rec)

lemma upt12: "[0..<12] = [0, 1, 2, 3, 4, 5, 6, 7, 8, 9, 10, 11]"
  by (simp add: upt_rec)

lemma replicate8: "replicate 8 x = [x, x, x, x, x, x, x, x]"
  by (simp add: numeral_eq_Suc)

lemma replicate12: "replicate 12 x = [x, x, x, x, x, x, x, x, x, x, x, x]"
  by (simp add: numeral_eq_Suc)

lemma default_simps: "default d (Some x) = x" "default d None = d"
  by (simp_all add: default_def)

text \<open>The two block-assembled matrices of each class, row by row.\<close>

lemma M4_rows: "CouplingElement_M e =
  [[m_l e, 0, 0, 0, 0, 0, 0, 0],
   [0, m_l e, 0, 0, 0, 0, 0, 0],
   [0, 0, Id_l e, 0, 0, 0, 0, 0],
   [0, 0, 0, Id_l e, 0, 0, 0, 0],
   [0, 0, 0, 0, m_r e, 0, 0, 0],
   [0, 0, 0, 0, 0, m_r e, 0, 0],
   [0, 0, 0, 0, 0, 0, Id_r e, 0],
   [0, 0, 0, 0, 0, 0, 0, Id_r e]]"
  by (simp add: CouplingElement_M_def zeros_def slice_assign_def upt8 Let_def)

lemma G4_rows: "CouplingElement_G e =
  [[0, 0, 0, 0, 0, 0, 0, 0],
   [0, 0, 0, 0, 0, 0, 0, 0],
   [0, 0, 0, Ip_l e, 0, 0, 0, 0],
   [0, 0, - Ip_l e, 0, 0, 0, 0, 0],
   [0, 0, 0, 0, 0, 0, 0, 0],
   [0, 0, 0, 0, 0, 0, 0, 0],
   [0, 0, 0, 0, 0, 0, 0, Ip_r e],
   [0, 0, 0, 0, 0, 0, - Ip_r e, 0]]"
  by (simp add: CouplingElement_G_def zeros_def slice_assign_def upt8 Let_def)

lemma M6_rows: "CouplingElement6DoF_M e =
  [[m_l e, 0, 0, 0, 0, 0, 0, 0, 0, 0, 0, 0],
   [0, m_l e, 0, 0, 0, 0, 0, 0, 0, 0, 0, 0],
   [0, 0, m_l e, 0, 0, 0, 0, 0, 0, 0, 0, 0],
   [0, 0, 0, Id_l e, 0, 0, 0, 0, 0, 0, 0, 0],
   [0, 0, 0, 0, Id_l e, 0, 0, 0, 0, 0, 0, 0],
   [0, 0, 0, 0, 0, Ip_l e, 0, 0, 0, 0, 0, 0],
   [0, 0, 0, 0, 0, 0, m_r e, 0, 0, 0, 0, 0],
   [0, 0, 0, 0, 0, 0, 0, m_r e, 0, 0, 0, 0],
   [0, 0, 0, 0, 0, 0, 0, 0, m_r e, 0, 0, 0],
   [0, 0, 0, 0, 0, 0, 0, 0, 0, Id_r e, 0, 0],
   [0, 0, 0, 0, 0, 0, 0, 0, 0, 0, Id_r e, 0],
   [0, 0, 0, 0, 0, 0, 0, 0, 0, 0, 0, Ip_r e]]"
  by (simp add: CouplingElement6DoF_M_def zeros_def slice_assign_def upt12 Let_def)

lemma G6_rows: "CouplingElement6DoF_G e =
  [[0, 0, 0, 0, 0, 0, 0, 0, 0, 0, 0, 0],
   [0, 0, 0, 0, 0, 0, 0, 0, 0, 0, 0, 0],
   [0, 0, 0, 0, 0, 0, 0, 0, 0, 0, 0, 0],
   [0, 0, 0, 0, Ip_l e, 0, 0, 0, 0, 0, 0, 0],
   [0, 0, 0, - Ip_l e, 0, 0, 0, 0, 0, 0, 0, 0],
   [0, 0, 0, 0, 0, 0, 0, 0, 0, 0, 0, 0],
   [0, 0, 0, 0, 0, 0, 0, 0, 0, 0, 0, 0],
   [0, 0, 0, 0, 0, 0, 0, 0, 0, 0, 0, 0],
   [0, 0, 0, 0, 0, 0, 0, 0, 0, 0, 0, 0],
   [0, 0, 0, 0, 0, 0, 0, 0, 0, 0, Ip_r e, 0],
   [0, 0, 0, 0, 0, 0, 0, 0, 0, - Ip_r e, 0, 0],
   [0, 0, 0, 0, 0, 0, 0, 0, 0, 0, 0, 0]]"
  by (simp add: CouplingElement6DoF_G_def zeros_def slice_assign_def upt12 Let_def)

lemmas K_defs = CouplingElement_K_def CouplingElement_C_def
  CouplingElement6DoF_K_def CouplingElement6DoF_C_def Let_def

lemmas init_defs = CouplingElement_init_def CouplingElement6DoF_init_def default_def

subsection \<open>Conversion lemmas\<close>

lemma bit_length_le: "a < 2 ^ k \<Longrightarrow> bit_length a \<le> k"
proof (induction k arbitrary: a)
  case 0
  then show ?case by (simp add: bit_length.simps)
next
  case (Suc k)
  show ?case
  proof (cases "a = 0")
    case True
    then show ?thesis by (simp add: bit_length.simps)
  next
    case False
    from Suc.prems have "a div 2 < 2 ^ k" by simp
    then have "bit_length (a div 2) \<le> k" by (rule Suc.IH)
    with False show ?thesis by (subst bit_length.simps) simp
  qed
qed

lemma bit_length_eq: "2 ^ k \<le> a \<Longrightarrow> a < 2 ^ Suc k \<Longrightarrow> bit_length a = Suc k"
proof (induction k arbitrary: a)
  case 0
  then have "a = 1" by simp
  then show ?case by (simp add: bit_length.simps)
next
  case (Suc k)
  from Suc.prems have "2 ^ k \<le> a div 2" "a div 2 < 2 ^ Suc k" by simp_all
  then have "bit_length (a div 2) = Suc k" by (rule Suc.IH)
  moreover from Suc.prems have "a \<noteq> 0" by auto
  ultimately show ?case by (subst bit_length.simps) simp
qed

lemma int_to_double_small: "\<bar>n\<bar> < 2 ^ 53 \<Longrightarrow> int_to_double n = n"
proof -
  assume h: "\<bar>n\<bar> < 2 ^ 53"
  then have "nat \<bar>n\<bar> < 2 ^ 53"
    by (simp add: nat_less_iff)
  then have "bit_length (nat \<bar>n\<bar>) \<le> 53" by (rule bit_length_le)
  then have "int_to_double n = sgn n * \<bar>n\<bar>"
    by (simp add: int_to_double_def Let_def)
  then show ?thesis by (simp add: mult_sgn_abs)
qed

lemma bind_err_simps: "bind_err (Inr x) f = f x" "bind_err (Inl e) f = Inl e"
  by (simp_all add: bind_err_def)

lemma py_float_ok: "converts v \<Longrightarrow> py_float v = Inr (as_float v)"
  by (cases v) (simp_all add: converts_def py_float_def as_float_def)

lemma DBL_MAX_nonneg: "0 \<le> DBL_MAX"
  by (simp add: DBL_MAX_def)

lemma py_half_ok: "converts v \<Longrightarrow> py_half v = Inr (as_float v / 2)"
  using DBL_MAX_nonneg by (cases v) (auto simp add: converts_def py_half_def as_float_def)

lemma float_Id_ok:
  "converts (given v) \<Longrightarrow> converts Ip \<Longrightarrow> float_Id (given v) Ip = Inr (stored_Id v Ip)"
  by (simp add: float_Id_def stored_Id_def py_float_ok py_half_ok)

lemma init_num_ok:
  assumes "list_all converts (numeric_args p)"
  shows "CouplingElement_init_num p =
     Inr \<lparr> self_n = num_n p,
             n_l = num_n p,
             n_r = (case num_n p of None \<Rightarrow> None | Some k \<Rightarrow> Some (k + 1)),
             m_l = as_float (num_m_l p),
             m_r = as_float (num_m_r p),
             self_m = as_float (num_m_l p) + as_float (num_m_r p),
             Ip_l = as_float (num_Ip_l p),
             Ip_r = as_float (num_Ip_r p),
             Id_l = stored_Id (num_Id_l p) (num_Ip_l p),
             Id_r = stored_Id (num_Id_r p) (num_Ip_r p),
             kt_x = as_float (given (num_kt_x p)),
             kt_y = as_float (given (num_kt_y p)),
             kr_x = as_float (given (num_kr_x p)),
             kr_y = as_float (given (num_kr_y p)),
             ct_x = as_float (given (num_ct_x p)),
             ct_y = as_float (given (num_ct_y p)),
             cr_x = as_float (given (num_cr_x p)),
             cr_y = as_float (given (num_cr_y p)),
             self_L = num_L p,
             tag = num_tag p,
             color = default ''#add8e6'' (num_color p),
             dof_global_index = None,
             beam_cg = 10 ^ 20,
             slenderness_ratio = 10 ^ 30,
             Im = stored_Id (num_Id_l p) (num_Ip_l p) + stored_Id (num_Id_r p) (num_Ip_r p) \<rparr>"
  using assms
  by (simp add: numeric_args_def CouplingElement_init_num_def float_Id_ok py_float_ok
      bind_err_simps)

lemma init6_num_ok:
  assumes "list_all converts (numeric_args6 p)"
  shows "CouplingElement6DoF_init_num p =
     Inr \<lparr> self_n = num_n p,
             n_l = num_n p,
             n_r = (case num_n p of None \<Rightarrow> None | Some k \<Rightarrow> Some (k + 1)),
             m_l = as_float (num_m_l p),
             m_r = as_float (num_m_r p),
             self_m = as_float (num_m_l p) + as_float (num_m_r p),
             Ip_l = as_float (num_Ip_l p),
             Ip_r = as_float (num_Ip_r p),
             Id_l = stored_Id (num_Id_l p) (num_Ip_l p),
             Id_r = stored_Id (num_Id_r p) (num_Ip_r p),
             kt_x = as_float (given (num_kt_x p)),
             kt_y = as_float (given (num_kt_y p)),
             kr_x = as_float (given (num_kr_x p)),
             kr_y = as_float (given (num_kr_y p)),
             ct_x = as_float (given (num_ct_x p)),
             ct_y = as_float (given (num_ct_y p)),
             cr_x = as_float (given (num_cr_x p)),
             cr_y = as_float (given (num_cr_y p)),
             self_L = num_L p,
             tag = num_tag p,
             color = default ''#add8e6'' (num_color p),
             dof_global_index = None,
             beam_cg = 10 ^ 20,
             slenderness_ratio = 10 ^ 30,
             Im = stored_Id (num_Id_l p) (num_Ip_l p) + stored_Id (num_Id_r p) (num_Ip_r p),
             kt_z = as_float (given (num_kt_z p)),
             kr_z = as_float (given (num_kr_z p)),
             ct_z = as_float (given (num_ct_z p)),
             cr_z = as_float (given (num_cr_z p)),
             o_d = 150 / 1000 \<rparr>"
  using assms
  by (simp add: numeric_args6_def numeric_args_def CouplingElement6DoF_init_num_def float_Id_ok
      py_float_ok bind_err_simps)

lemma as_float_simps:
  "as_float (PyFloat x) = x" "\<bar>k\<bar> < 2 ^ 53 \<Longrightarrow> as_float (PyInt k) = real_of_int k"
  by (simp_all add: as_float_def int_to_double_small)

lemma converts_simps:
  "converts (PyFloat x)" "\<bar>k\<bar> < 2 ^ 53 \<Longrightarrow> converts (PyInt k)"
  by (simp_all add: converts_def int_to_double_small DBL_MAX_def)

lemma given_simps: "given None = PyInt 0" "given (Some v) = v"
  by (simp_all add: given_def default_def)

lemma stored_Id_float:
  "stored_Id (map_option PyFloat v) (PyFloat ip) = Id_or_half (default 0 v) ip"
  by (cases v)
    (simp_all add: stored_Id_def given_simps truthy_def as_float_simps Id_or_half_def default_simps)

lemma as_float_given_float: "as_float (given (map_option PyFloat v)) = default 0 v"
  by (cases v) (simp_all add: given_simps as_float_simps default_simps)

lemma converts_given_float: "converts (given (map_option PyFloat v))"
  by (cases v) (simp_all add: given_simps converts_simps)

lemma init_num_floats:
  "CouplingElement_init_num (float_numargs a) = Inr (CouplingElement_init a)"
proof -
  have "list_all converts (numeric_args (float_numargs a))"
    by (simp add: numeric_args_def float_numargs_def converts_simps converts_given_float)
  then show ?thesis
    by (simp add: init_num_ok)
      (simp add: float_numargs_def CouplingElement_init_def Let_def as_float_simps
        stored_Id_float as_float_given_float)
qed

lemma init6_num_floats:
  "CouplingElement6DoF_init_num (float_numargs6 a) = Inr (CouplingElement6DoF_init a)"
proof -
  have "list_all converts (numeric_args6 (float_numargs6 a))"
    by (simp add: numeric_args6_def numeric_args_def float_numargs6_def converts_simps
        converts_given_float)
  then show ?thesis
    by (simp add: init6_num_ok)
      (simp add: float_numargs6_def CouplingElement6DoF_init_def Let_def as_float_simps
        stored_Id_float as_float_given_float)
qed

lemma diag_mat8: "diag_mat [a, b, c, d, e, f, g, h] =
  [[a, 0, 0, 0, 0, 0, 0, 0],
   [0, b, 0, 0, 0, 0, 0, 0],
   [0, 0, c, 0, 0, 0, 0, 0],
   [0, 0, 0, d, 0, 0, 0, 0],
   [0, 0, 0, 0, e, 0, 0, 0],
   [0, 0, 0, 0, 0, f, 0, 0],
   [0, 0, 0, 0, 0, 0, g, 0],
   [0, 0, 0, 0, 0, 0, 0, h]]"
  by (simp add: diag_mat_def mat_of_def upt8)

lemma diag_mat12: "diag_mat [a, b, c, d, e, f, g, h, i, j, k, l] =
  [[a, 0, 0, 0, 0, 0, 0, 0, 0, 0, 0, 0],
   [0, b, 0, 0, 0, 0, 0, 0, 0, 0, 0, 0],
   [0, 0, c, 0, 0, 0, 0, 0, 0, 0, 0, 0],
   [0, 0, 0, d, 0, 0, 0, 0, 0, 0, 0, 0],
   [0, 0, 0, 0, e, 0, 0, 0, 0, 0, 0, 0],
   [0, 0, 0, 0, 0, f, 0, 0, 0, 0, 0, 0],
   [0, 0, 0, 0, 0, 0, g, 0, 0, 0, 0, 0],
   [0, 0, 0, 0, 0, 0, 0, h, 0, 0, 0, 0],
   [0, 0, 0, 0, 0, 0, 0, 0, i, 0, 0, 0],
   [0, 0, 0, 0, 0, 0, 0, 0, 0, j, 0, 0],
   [0, 0, 0, 0, 0, 0, 0, 0, 0, 0, k, 0],
   [0, 0, 0, 0, 0, 0, 0, 0, 0, 0, 0, l]]"
  by (simp add: diag_mat_def mat_of_def upt12)

lemma gyro_mat4: "gyro_mat 4 2 3 [a, b] =
  [[0, 0, 0, 0, 0, 0, 0, 0],
   [0, 0, 0, 0, 0, 0, 0, 0],
   [0, 0, 0, a, 0, 0, 0, 0],
   [0, 0, - a, 0, 0, 0, 0, 0],
   [0, 0, 0, 0, 0, 0, 0, 0],
   [0, 0, 0, 0, 0, 0, 0, 0],
   [0, 0, 0, 0, 0, 0, 0, b],
   [0, 0, 0, 0, 0, 0, - b, 0]]"
  by (simp add: gyro_mat_def mat_of_def upt8)

lemma gyro_mat6: "gyro_mat 6 3 4 [a, b] =
  [[0, 0, 0, 0, 0, 0, 0, 0, 0, 0, 0, 0],
   [0, 0, 0, 0, 0, 0, 0, 0, 0, 0, 0, 0],
   [0, 0, 0, 0, 0, 0, 0, 0, 0, 0, 0, 0],
   [0, 0, 0, 0, a, 0, 0, 0, 0, 0, 0, 0],
   [0, 0, 0, - a, 0, 0, 0, 0, 0, 0, 0, 0],
   [0, 0, 0, 0, 0, 0, 0, 0, 0, 0, 0, 0],
   [0, 0, 0, 0, 0, 0, 0, 0, 0, 0, 0, 0],
   [0, 0, 0, 0, 0, 0, 0, 0, 0, 0, 0, 0],
   [0, 0, 0, 0, 0, 0, 0, 0, 0, 0, 0, 0],
   [0, 0, 0, 0, 0, 0, 0, 0, 0, 0, b, 0],
   [0, 0, 0, 0, 0, 0, 0, 0, 0, - b, 0, 0],
   [0, 0, 0, 0, 0, 0, 0, 0, 0, 0, 0, 0]]"
  by (simp add: gyro_mat_def mat_of_def upt12)

lemma channel_sum4: "channel_sum 4 [k1, k2, k3, k4] =
  [[ k1,   0,   0,   0, -k1,   0,   0,   0],
   [  0,  k2,   0,   0,   0, -k2,   0,   0],
   [  0,   0,  k3,   0,   0,   0, -k3,   0],
   [  0,   0,   0,  k4,   0,   0,   0, -k4],
   [-k1,   0,   0,   0,  k1,   0,   0,   0],
   [  0, -k2,   0,   0,   0,  k2,   0,   0],
   [  0,   0, -k3,   0,   0,   0,  k3,   0],
   [  0,   0,   0, -k4,   0,   0,   0,  k4]]"
  by (simp add: channel_sum_def scatter_pair_def pattern2_def mat_of_def add_mat_def zeros_def
      upt4 upt8 replicate8)

lemma channel_sum6: "channel_sum 6 [k1, k2, k3, k4, k5, k6] =
  [[ k1,   0,   0,   0,   0,   0, -k1,   0,   0,   0,   0,   0],
   [  0,  k2,   0,   0,   0,   0,   0, -k2,   0,   0,   0,   0],
   [  0,   0,  k3,   0,   0,   0,   0,   0, -k3,   0,   0,   0],
   [  0,   0,   0,  k4,   0,   0,   0,   0,   0, -k4,   0,   0],
   [  0,   0,   0,   0,  k5,   0,   0,   0,   0,   0, -k5,   0],
   [  0,   0,   0,   0,   0,  k6,   0,   0,   0,   0,   0, -k6],
   [-k1,   0,   0,   0,   0,   0,  k1,   0,   0,   0,   0,   0],
   [  0, -k2,   0,   0,   0,   0,   0,  k2,   0,   0,   0,   0],
   [  0,   0, -k3,   0,   0,   0,   0,   0,  k3,   0,   0,   0],
   [  0,   0,   0, -k4,   0,   0,   0,   0,   0,  k4,   0,   0],
   [  0,   0,   0,   0, -k5,   0,   0,   0,   0,   0,  k5,   0],
   [  0,   0,   0,   0,   0, -k6,   0,   0,   0,   0,   0,  k6]]"
  by (simp add: channel_sum_def scatter_pair_def pattern2_def mat_of_def add_mat_def zeros_def
      upt6 upt12 replicate12)

subsection \<open>Symmetry\<close>

text \<open>
  Claim C1. For every element of either class, the mass, stiffness and damping matrices are
  equal to their own transpose, and the gyroscopic matrix is equal to the negative of its
  own transpose.
\<close>

theorem matrices_symmetric:
  "CouplingElement_M e = transpose_mat (CouplingElement_M e) \<and>
   CouplingElement_K e = transpose_mat (CouplingElement_K e) \<and>
   CouplingElement_C e = transpose_mat (CouplingElement_C e) \<and>
   CouplingElement_G e = neg_mat (transpose_mat (CouplingElement_G e)) \<and>
   CouplingElement6DoF_M e6 = transpose_mat (CouplingElement6DoF_M e6) \<and>
   CouplingElement6DoF_K e6 = transpose_mat (CouplingElement6DoF_K e6) \<and>
   CouplingElement6DoF_C e6 = transpose_mat (CouplingElement6DoF_C e6) \<and>
   CouplingElement6DoF_G e6 = neg_mat (transpose_mat (CouplingElement6DoF_G e6))"
  by (simp add: M4_rows G4_rows M6_rows G6_rows K_defs transpose_mat_def neg_mat_def upt8 upt12)

subsection \<open>Gyroscopic matrix\<close>

text \<open>
  Claim C2, as amended. The gyroscopic matrix is block-diagonal, and within the block of a
  station its only entries that can be non-zero are \<open>+Ip\<close> at (\<open>rot_x\<close>, \<open>rot_y\<close>) and
  \<open>-Ip\<close> at (\<open>rot_y\<close>, \<open>rot_x\<close>), with the polar inertia of that station. For the 4-DOF
  element built with \<open>Ip_l = Ip_r = 2\<close> and any other arguments: \<open>G[2,3] = 2\<close>,
  \<open>G[3,2] = -2\<close>, \<open>G[6,7] = 2\<close>, \<open>G[7,6] = -2\<close>, every other entry zero.
\<close>

theorem gyroscopic_structure:
  "CouplingElement_G e =
     mat_of 8 (\<lambda>i j. if i div 4 = j div 4
                      then (if i mod 4 = 2 \<and> j mod 4 = 3 then station_Ip e (i div 4)
                            else if i mod 4 = 3 \<and> j mod 4 = 2 then - station_Ip e (i div 4)
                            else 0)
                      else 0) \<and>
   CouplingElement6DoF_G e6 =
     mat_of 12 (\<lambda>i j. if i div 6 = j div 6
                       then (if i mod 6 = 3 \<and> j mod 6 = 4 then station_Ip e6 (i div 6)
                             else if i mod 6 = 4 \<and> j mod 6 = 3 then - station_Ip e6 (i div 6)
                             else 0)
                       else 0) \<and>
   CouplingElement_G (CouplingElement_init (a\<lparr>arg_Ip_l := 2, arg_Ip_r := 2\<rparr>)) =
     [[0, 0, 0, 0, 0, 0, 0, 0],
      [0, 0, 0, 0, 0, 0, 0, 0],
      [0, 0, 0, 2, 0, 0, 0, 0],
      [0, 0, - 2, 0, 0, 0, 0, 0],
      [0, 0, 0, 0, 0, 0, 0, 0],
      [0, 0, 0, 0, 0, 0, 0, 0],
      [0, 0, 0, 0, 0, 0, 0, 2],
      [0, 0, 0, 0, 0, 0, - 2, 0]]"
  by (simp add: G4_rows G6_rows mat_of_def station_Ip_def upt8 upt12 CouplingElement_init_def Let_def)

text \<open>
  Claim C2 as it was stated puts \<open>-Ip\<close> at (\<open>rot_x\<close>, \<open>rot_y\<close>): \<open>G[2,3] = -2\<close> and
  \<open>G[3,2] = 2\<close> for polar inertias of 2. The element built from unit masses and polar
  inertias of 2 has \<open>G[2,3] = 2\<close> and \<open>G[3,2] = -2\<close>.
\<close>

theorem gyroscopic_sign_counterexample:
  "CouplingElement_G (CouplingElement_init example_args) ! 2 ! 3 = 2 \<and>
   CouplingElement_G (CouplingElement_init example_args) ! 3 ! 2 = - 2 \<and>
   \<not> (CouplingElement_G (CouplingElement_init example_args) ! 2 ! 3 = - 2 \<and>
      CouplingElement_G (CouplingElement_init example_args) ! 3 ! 2 = 2 \<and>
      CouplingElement_G (CouplingElement_init example_args) ! 6 ! 7 = - 2 \<and>
      CouplingElement_G (CouplingElement_init example_args) ! 7 ! 6 = 2)"
  by (simp add: G4_rows CouplingElement_init_def example_args_def Let_def)

subsection \<open>Mass matrix\<close>

text \<open>
  Claim C3. The mass matrix is diagonal, so block-diagonal with zero cross-station blocks.
  On the diagonal of a station's block, the translational degrees of freedom carry the mass
  of that station and the rotations about \<open>x\<close> and \<open>y\<close> its diametral inertia; in the
  6-DOF element the axial translation carries the mass and the torsion the polar inertia.
  The 4-DOF element built with \<open>m_l = m_r = 1\<close>, \<open>Ip_l = Ip_r = 2\<close> and no diametral
  inertia has the diagonal \<open>[1, 1, 1, 1, 1, 1, 1, 1]\<close>.
\<close>

theorem mass_structure:
  "CouplingElement_M e =
     mat_of 8 (\<lambda>i j. if i = j
                      then (if i mod 4 < 2 then station_m e (i div 4) else station_Id e (i div 4))
                      else 0) \<and>
   CouplingElement6DoF_M e6 =
     mat_of 12 (\<lambda>i j. if i = j
                       then (if i mod 6 < 3 then station_m e6 (i div 6)
                             else if i mod 6 < 5 then station_Id e6 (i div 6)
                             else station_Ip e6 (i div 6))
                       else 0) \<and>
   diag (CouplingElement_M (CouplingElement_init
           (a\<lparr>arg_m_l := 1, arg_m_r := 1, arg_Ip_l := 2, arg_Ip_r := 2,
              arg_Id_l := None, arg_Id_r := None\<rparr>))) = [1, 1, 1, 1, 1, 1, 1, 1]"
  by (simp add: M4_rows M6_rows mat_of_def station_m_def station_Id_def station_Ip_def upt8 upt12
      diag_def CouplingElement_init_def Let_def default_def Id_or_half_def)

subsection \<open>Stiffness and damping matrices\<close>

text \<open>
  Claim C4. The stiffness matrix is the sum over the channels of the class of the pattern
  \<open>[[k, -k], [-k, k]]\<close> placed on the pair of indices of the channel at the left and the
  right station: the channel's coefficient on the diagonal, its negation at the two
  cross-station positions of the same channel, zero elsewhere. The damping matrix is the
  same with every stiffness coefficient replaced by the damping coefficient of its channel.
\<close>

theorem stiffness_damping_structure:
  "CouplingElement_K e = channel_sum 4 [kt_x e, kt_y e, kr_x e, kr_y e] \<and>
   CouplingElement_C e = channel_sum 4 [ct_x e, ct_y e, cr_x e, cr_y e] \<and>
   CouplingElement6DoF_K e6 = channel_sum 6 [kt_x e6, kt_y e6, kt_z e6, kr_x e6, kr_y e6, kr_z e6] \<and>
   CouplingElement6DoF_C e6 = channel_sum 6 [ct_x e6, ct_y e6, ct_z e6, cr_x e6, cr_y e6, cr_z e6] \<and>
   CouplingElement_K e =
     mat_of 8 (\<lambda>i j. if i mod 4 = j mod 4
                      then (if i = j then [kt_x e, kt_y e, kr_x e, kr_y e] ! (i mod 4)
                            else - ([kt_x e, kt_y e, kr_x e, kr_y e] ! (i mod 4)))
                      else 0) \<and>
   CouplingElement6DoF_K e6 =
     mat_of 12 (\<lambda>i j. if i mod 6 = j mod 6
                      then (if i = j then [kt_x e6, kt_y e6, kt_z e6, kr_x e6, kr_y e6, kr_z e6] ! (i mod 6)
                            else - ([kt_x e6, kt_y e6, kt_z e6, kr_x e6, kr_y e6, kr_z e6] ! (i mod 6)))
                      else 0) \<and>
   CouplingElement_C e =
     CouplingElement_K (e\<lparr>kt_x := ct_x e, kt_y := ct_y e, kr_x := cr_x e, kr_y := cr_y e\<rparr>) \<and>
   CouplingElement6DoF_C e6 =
     CouplingElement6DoF_K (e6\<lparr>kt_x := ct_x e6, kt_y := ct_y e6, kt_z := ct_z e6,
                               kr_x := cr_x e6, kr_y := cr_y e6, kr_z := cr_z e6\<rparr>)"
  by (simp add: K_defs channel_sum_def scatter_pair_def pattern2_def mat_of_def add_mat_def zeros_def
      upt4 upt6 upt8 upt12 replicate8 replicate12)

text \<open>
  Claim C5. A 4-DOF element with \<open>kt_x = 5\<close> and the three other stiffness coefficients
  zero has a stiffness matrix with exactly four non-zero entries: \<open>K[0,0] = 5\<close>,
  \<open>K[0,4] = -5\<close>, \<open>K[4,0] = -5\<close>, \<open>K[4,4] = 5\<close>.
\<close>

theorem single_channel_stiffness:
  "kt_x e = 5 \<Longrightarrow> kt_y e = 0 \<Longrightarrow> kr_x e = 0 \<Longrightarrow> kr_y e = 0 \<Longrightarrow>
   nonzero_positions (CouplingElement_K e) = [(0, 0), (0, 4), (4, 0), (4, 4)] \<and>
   CouplingElement_K e ! 0 ! 0 = 5 \<and> CouplingElement_K e ! 0 ! 4 = - 5 \<and>
   CouplingElement_K e ! 4 ! 0 = - 5 \<and> CouplingElement_K e ! 4 ! 4 = 5"
  by (simp add: K_defs nonzero_positions_def upt8)

text \<open>The element built from the unit parameter set with \<open>kt_x = 5\<close> is such an element.\<close>

theorem single_channel_stiffness_witness:
  "kt_x (CouplingElement_init (example_args\<lparr>arg_kt_x := Some 5\<rparr>)) = 5 \<and>
   kt_y (CouplingElement_init (example_args\<lparr>arg_kt_x := Some 5\<rparr>)) = 0 \<and>
   kr_x (CouplingElement_init (example_args\<lparr>arg_kt_x := Some 5\<rparr>)) = 0 \<and>
   kr_y (CouplingElement_init (example_args\<lparr>arg_kt_x := Some 5\<rparr>)) = 0 \<and>
   nonzero_positions (CouplingElement_K (CouplingElement_init (example_args\<lparr>arg_kt_x := Some 5\<rparr>)))
     = [(0, 0), (0, 4), (4, 0), (4, 4)] \<and>
   CouplingElement_K (CouplingElement_init (example_args\<lparr>arg_kt_x := Some 5\<rparr>)) ! 0 ! 4 = - 5"
  using single_channel_stiffness [of "CouplingElement_init (example_args\<lparr>arg_kt_x := Some 5\<rparr>)"]
  by (simp add: CouplingElement_init_def example_args_def default_def Let_def)

text \<open>
  Claim C6. Take a parameter set and the one that differs from it only in one stiffness or
  damping coefficient, set to zero. The two stiffness (damping) matrices of the constructed
  elements differ at exactly the four positions of that channel when the coefficient
  supplied in the first parameter set is not zero, the second one is zero there, and they
  agree everywhere else. This holds for each of the 8 channels of the 4-DOF element and each of the 12
  channels of the 6-DOF element.
\<close>

theorem channel_independence:
  "zeroes_channel 4 0 (default 0 (arg_kt_x a))
     (CouplingElement_K (CouplingElement_init a))
     (CouplingElement_K (CouplingElement_init (a\<lparr>arg_kt_x := Some 0\<rparr>))) \<and>
   zeroes_channel 4 1 (default 0 (arg_kt_y a))
     (CouplingElement_K (CouplingElement_init a))
     (CouplingElement_K (CouplingElement_init (a\<lparr>arg_kt_y := Some 0\<rparr>))) \<and>
   zeroes_channel 4 2 (default 0 (arg_kr_x a))
     (CouplingElement_K (CouplingElement_init a))
     (CouplingElement_K (CouplingElement_init (a\<lparr>arg_kr_x := Some 0\<rparr>))) \<and>
   zeroes_channel 4 3 (default 0 (arg_kr_y a))
     (CouplingElement_K (CouplingElement_init a))
     (CouplingElement_K (CouplingElement_init (a\<lparr>arg_kr_y := Some 0\<rparr>))) \<and>
   zeroes_channel 4 0 (default 0 (arg_ct_x a))
     (CouplingElement_C (CouplingElement_init a))
     (CouplingElement_C (CouplingElement_init (a\<lparr>arg_ct_x := Some 0\<rparr>))) \<and>
   zeroes_channel 4 1 (default 0 (arg_ct_y a))
     (CouplingElement_C (CouplingElement_init a))
     (CouplingElement_C (CouplingElement_init (a\<lparr>arg_ct_y := Some 0\<rparr>))) \<and>
   zeroes_channel 4 2 (default 0 (arg_cr_x a))
     (CouplingElement_C (CouplingElement_init a))
     (CouplingElement_C (CouplingElement_init (a\<lparr>arg_cr_x := Some 0\<rparr>))) \<and>
   zeroes_channel 4 3 (default 0 (arg_cr_y a))
     (CouplingElement_C (CouplingElement_init a))
     (CouplingElement_C (CouplingElement_init (a\<lparr>arg_cr_y := Some 0\<rparr>))) \<and>
   zeroes_channel 6 0 (default 0 (arg_kt_x b))
     (CouplingElement6DoF_K (CouplingElement6DoF_init b))
     (CouplingElement6DoF_K (CouplingElement6DoF_init (b\<lparr>arg_kt_x := Some 0\<rparr>))) \<and>
   zeroes_channel 6 1 (default 0 (arg_kt_y b))
     (CouplingElement6DoF_K (CouplingElement6DoF_init b))
     (CouplingElement6DoF_K (CouplingElement6DoF_init (b\<lparr>arg_kt_y := Some 0\<rparr>))) \<and>
   zeroes_channel 6 2 (default 0 (arg_kt_z b))
     (CouplingElement6DoF_K (CouplingElement6DoF_init b))
     (CouplingElement6DoF_K (CouplingElement6DoF_init (b\<lparr>arg_kt_z := Some 0\<rparr>))) \<and>
   zeroes_channel 6 3 (default 0 (arg_kr_x b))
     (CouplingElement6DoF_K (CouplingElement6DoF_init b))
     (CouplingElement6DoF_K (CouplingElement6DoF_init (b\<lparr>arg_kr_x := Some 0\<rparr>))) \<and>
   zeroes_channel 6 4 (default 0 (arg_kr_y b))
     (CouplingElement6DoF_K (CouplingElement6DoF_init b))
     (CouplingElement6DoF_K (CouplingElement6DoF_init (b\<lparr>arg_kr_y := Some 0\<rparr>))) \<and>
   zeroes_channel 6 5 (default 0 (arg_kr_z b))
     (CouplingElement6DoF_K (CouplingElement6DoF_init b))
     (CouplingElement6DoF_K (CouplingElement6DoF_init (b\<lparr>arg_kr_z := Some 0\<rparr>))) \<and>
   zeroes_channel 6 0 (default 0 (arg_ct_x b))
     (CouplingElement6DoF_C (CouplingElement6DoF_init b))
     (CouplingElement6DoF_C (CouplingElement6DoF_init (b\<lparr>arg_ct_x := Some 0\<rparr>))) \<and>
   zeroes_channel 6 1 (default 0 (arg_ct_y b))
     (CouplingElement6DoF_C (CouplingElement6DoF_init b))
     (CouplingElement6DoF_C (CouplingElement6DoF_init (b\<lparr>arg_ct_y := Some 0\<rparr>))) \<and>
   zeroes_channel 6 2 (default 0 (arg_ct_z b))
     (CouplingElement6DoF_C (CouplingElement6DoF_init b))
     (CouplingElement6DoF_C (CouplingElement6DoF_init (b\<lparr>arg_ct_z := Some 0\<rparr>))) \<and>
   zeroes_channel 6 3 (default 0 (arg_cr_x b))
     (CouplingElement6DoF_C (CouplingElement6DoF_init b))
     (CouplingElement6DoF_C (CouplingElement6DoF_init (b\<lparr>arg_cr_x := Some 0\<rparr>))) \<and>
   zeroes_channel 6 4 (default 0 (arg_cr_y b))
     (CouplingElement6DoF_C (CouplingElement6DoF_init b))
     (CouplingElement6DoF_C (CouplingElement6DoF_init (b\<lparr>arg_cr_y := Some 0\<rparr>))) \<and>
   zeroes_channel 6 5 (default 0 (arg_cr_z b))
     (CouplingElement6DoF_C (CouplingElement6DoF_init b))
     (CouplingElement6DoF_C (CouplingElement6DoF_init (b\<lparr>arg_cr_z := Some 0\<rparr>)))"
  by (simp add: zeroes_channel_def channel_positions_def diff_positions_def K_defs init_defs upt8 upt12)

subsection \<open>Construction\<close>

text \<open>
  Claim C7. When the diametral inertia of a station is omitted, and also when it is given
  as exactly zero, the constructed element of either class holds half of the polar inertia
  of that station in its \<open>Id\<close> attribute.
\<close>

theorem diametral_default:
  "Id_l (CouplingElement_init (a\<lparr>arg_Id_l := None\<rparr>)) = arg_Ip_l a / 2 \<and>
   Id_r (CouplingElement_init (a\<lparr>arg_Id_r := None\<rparr>)) = arg_Ip_r a / 2 \<and>
   Id_l (CouplingElement_init (a\<lparr>arg_Id_l := Some 0\<rparr>)) = arg_Ip_l a / 2 \<and>
   Id_r (CouplingElement_init (a\<lparr>arg_Id_r := Some 0\<rparr>)) = arg_Ip_r a / 2 \<and>
   Id_l (CouplingElement6DoF_init (b\<lparr>arg_Id_l := None\<rparr>)) = arg_Ip_l b / 2 \<and>
   Id_r (CouplingElement6DoF_init (b\<lparr>arg_Id_r := None\<rparr>)) = arg_Ip_r b / 2 \<and>
   Id_l (CouplingElement6DoF_init (b\<lparr>arg_Id_l := Some 0\<rparr>)) = arg_Ip_l b / 2 \<and>
   Id_r (CouplingElement6DoF_init (b\<lparr>arg_Id_r := Some 0\<rparr>)) = arg_Ip_r b / 2"
  by (simp add: init_defs Id_or_half_def Let_def)

text \<open>
  Claim C8. Every matrix of the 4-DOF element has 8 rows of 8 entries, every matrix of the
  6-DOF element 12 rows of 12 entries, and the stiffening matrix of the 6-DOF element is
  the zero matrix of that size, whatever the element.
\<close>

theorem matrix_dimensions:
  "row_lengths (CouplingElement_M e) = replicate 8 8 \<and>
   row_lengths (CouplingElement_K e) = replicate 8 8 \<and>
   row_lengths (CouplingElement_C e) = replicate 8 8 \<and>
   row_lengths (CouplingElement_G e) = replicate 8 8 \<and>
   row_lengths (CouplingElement6DoF_M e6) = replicate 12 12 \<and>
   row_lengths (CouplingElement6DoF_K e6) = replicate 12 12 \<and>
   row_lengths (CouplingElement6DoF_C e6) = replicate 12 12 \<and>
   row_lengths (CouplingElement6DoF_G e6) = replicate 12 12 \<and>
   row_lengths (CouplingElement6DoF_Kst e6) = replicate 12 12 \<and>
   CouplingElement6DoF_Kst e6 = replicate 12 (replicate 12 0)"
  by (simp add: row_lengths_def M4_rows G4_rows M6_rows G6_rows K_defs CouplingElement6DoF_Kst_def
      zeros_def replicate8 replicate12)

text \<open>
  Claim C9, as amended. \<open>__init__\<close> checks no sign and no range. Whenever \<open>float\<close>
  converts every numeric argument, construction succeeds for either class, and the four
  matrices hold the converted values, whatever their sign: the masses, the polar inertias,
  the stiffness and damping coefficients, and the diametral inertias, one that is omitted
  or zero being replaced by half of the polar inertia. \<open>float\<close> converts every float and
  every integer of magnitude below \<open>2 ^ 53\<close> to itself, so on float arguments
  construction always succeeds, with the element of \<open>CouplingElement_init\<close>.
\<close>

theorem no_sign_validation:
  assumes "list_all converts (numeric_args p)" and "list_all converts (numeric_args6 p6)"
    and "\<bar>k\<bar> < 2 ^ 53"
  shows
  "map_sum id CouplingElement_M (CouplingElement_init_num p) =
     Inr (diag_mat [as_float (num_m_l p), as_float (num_m_l p),
                    stored_Id (num_Id_l p) (num_Ip_l p), stored_Id (num_Id_l p) (num_Ip_l p),
                    as_float (num_m_r p), as_float (num_m_r p),
                    stored_Id (num_Id_r p) (num_Ip_r p), stored_Id (num_Id_r p) (num_Ip_r p)]) \<and>
   map_sum id CouplingElement_K (CouplingElement_init_num p) =
     Inr (channel_sum 4 [as_float (given (num_kt_x p)), as_float (given (num_kt_y p)),
                         as_float (given (num_kr_x p)), as_float (given (num_kr_y p))]) \<and>
   map_sum id CouplingElement_C (CouplingElement_init_num p) =
     Inr (channel_sum 4 [as_float (given (num_ct_x p)), as_float (given (num_ct_y p)),
                         as_float (given (num_cr_x p)), as_float (given (num_cr_y p))]) \<and>
   map_sum id CouplingElement_G (CouplingElement_init_num p) =
     Inr (gyro_mat 4 2 3 [as_float (num_Ip_l p), as_float (num_Ip_r p)]) \<and>
   map_sum id CouplingElement6DoF_M (CouplingElement6DoF_init_num p6) =
     Inr (diag_mat [as_float (num_m_l p6), as_float (num_m_l p6), as_float (num_m_l p6),
                    stored_Id (num_Id_l p6) (num_Ip_l p6), stored_Id (num_Id_l p6) (num_Ip_l p6),
                    as_float (num_Ip_l p6),
                    as_float (num_m_r p6), as_float (num_m_r p6), as_float (num_m_r p6),
                    stored_Id (num_Id_r p6) (num_Ip_r p6), stored_Id (num_Id_r p6) (num_Ip_r p6),
                    as_float (num_Ip_r p6)]) \<and>
   map_sum id CouplingElement6DoF_K (CouplingElement6DoF_init_num p6) =
     Inr (channel_sum 6 [as_float (given (num_kt_x p6)), as_float (given (num_kt_y p6)),
                         as_float (given (num_kt_z p6)), as_float (given (num_kr_x p6)),
                         as_float (given (num_kr_y p6)), as_float (given (num_kr_z p6))]) \<and>
   map_sum id CouplingElement6DoF_C (CouplingElement6DoF_init_num p6) =
     Inr (channel_sum 6 [as_float (given (num_ct_x p6)), as_float (given (num_ct_y p6)),
                         as_float (given (num_ct_z p6)), as_float (given (num_cr_x p6)),
                         as_float (given (num_cr_y p6)), as_float (given (num_cr_z p6))]) \<and>
   map_sum id CouplingElement6DoF_G (CouplingElement6DoF_init_num p6) =
     Inr (gyro_mat 6 3 4 [as_float (num_Ip_l p6), as_float (num_Ip_r p6)]) \<and>
   CouplingElement_init_num (float_numargs a) = Inr (CouplingElement_init a) \<and>
   CouplingElement6DoF_init_num (float_numargs6 a6) = Inr (CouplingElement6DoF_init a6) \<and>
   converts (PyFloat x) \<and> as_float (PyFloat x) = x \<and>
   converts (PyInt k) \<and> as_float (PyInt k) = real_of_int k"
proof -
  have four: "CouplingElement_M e = diag_mat [m_l e, m_l e, Id_l e, Id_l e, m_r e, m_r e, Id_r e, Id_r e]"
    "CouplingElement_K e = channel_sum 4 [kt_x e, kt_y e, kr_x e, kr_y e]"
    "CouplingElement_C e = channel_sum 4 [ct_x e, ct_y e, cr_x e, cr_y e]"
    "CouplingElement_G e = gyro_mat 4 2 3 [Ip_l e, Ip_r e]" for e
    by (simp_all add: M4_rows G4_rows K_defs diag_mat8 gyro_mat4 channel_sum4)
  have six: "CouplingElement6DoF_M e = diag_mat [m_l e, m_l e, m_l e, Id_l e, Id_l e, Ip_l e,
        m_r e, m_r e, m_r e, Id_r e, Id_r e, Ip_r e]"
    "CouplingElement6DoF_K e = channel_sum 6 [kt_x e, kt_y e, kt_z e, kr_x e, kr_y e, kr_z e]"
    "CouplingElement6DoF_C e = channel_sum 6 [ct_x e, ct_y e, ct_z e, cr_x e, cr_y e, cr_z e]"
    "CouplingElement6DoF_G e = gyro_mat 6 3 4 [Ip_l e, Ip_r e]" for e
    by (simp_all add: M6_rows G6_rows K_defs diag_mat12 gyro_mat6 channel_sum6)
  show ?thesis
    using assms(3)
    by (simp add: init_num_ok [OF assms(1)] init6_num_ok [OF assms(2)] four six
        init_num_floats init6_num_floats converts_simps as_float_simps)
qed

text \<open>Parameter sets of negative numbers only, floats and integers, for both classes.\<close>

theorem no_sign_validation_witness:
  "list_all converts (numeric_args negative_numargs) \<and>
   list_all converts (numeric_args6 negative_numargs6) \<and>
   \<bar>- 7 :: int\<bar> < 2 ^ 53 \<and>
   map_sum id CouplingElement_M (CouplingElement_init_num negative_numargs) =
     Inr (diag_mat [- 1, - 1, - 5, - 5, - 2, - 2, - 6, - 6]) \<and>
   map_sum id CouplingElement_K (CouplingElement_init_num negative_numargs) =
     Inr (channel_sum 4 [- 7, - 8, - 9, - 10]) \<and>
   map_sum id CouplingElement_C (CouplingElement_init_num negative_numargs) =
     Inr (channel_sum 4 [- 11, - 12, - 13, - 14]) \<and>
   map_sum id CouplingElement_G (CouplingElement_init_num negative_numargs) =
     Inr (gyro_mat 4 2 3 [- 3, - 4]) \<and>
   map_sum id CouplingElement6DoF_M (CouplingElement6DoF_init_num negative_numargs6) =
     Inr (diag_mat [- 1, - 1, - 1, - 5, - 5, - 3, - 2, - 2, - 2, - 6, - 6, - 4]) \<and>
   map_sum id CouplingElement6DoF_K (CouplingElement6DoF_init_num negative_numargs6) =
     Inr (channel_sum 6 [- 7, - 8, - 15, - 9, - 10, - 16]) \<and>
   map_sum id CouplingElement6DoF_C (CouplingElement6DoF_init_num negative_numargs6) =
     Inr (channel_sum 6 [- 11, - 12, - 17, - 13, - 14, - 18]) \<and>
   map_sum id CouplingElement6DoF_G (CouplingElement6DoF_init_num negative_numargs6) =
     Inr (gyro_mat 6 3 4 [- 3, - 4]) \<and>
   as_float (PyInt (- 7)) = - 7"
proof -
  have h4: "list_all converts (numeric_args negative_numargs)"
    by (simp add: numeric_args_def negative_numargs_def given_simps converts_simps)
  have h6: "list_all converts (numeric_args6 negative_numargs6)"
    by (simp add: numeric_args6_def numeric_args_def negative_numargs6_def given_simps
        converts_simps)
  have hk: "\<bar>- 7 :: int\<bar> < 2 ^ 53"
    by simp
  show ?thesis
    using no_sign_validation [OF h4 h6 hk] h4 h6
    by (simp add: negative_numargs_def negative_numargs6_def given_simps as_float_simps
        stored_Id_def truthy_def)
qed

text \<open>
  Claim C9 as it was stated lets construction succeed for every real-valued input and the
  values reach the matrices unchanged. With the integer \<open>10 ^ 400\<close> as left mass,
  \<open>float\<close> raises \<open>OverflowError\<close> and no element is built; with the integer
  \<open>2 ^ 53 + 1\<close> the element is built and its left mass is \<open>2 ^ 53\<close>.
\<close>

theorem construction_raises_counterexample:
  "CouplingElement_init_num (example_numargs\<lparr>num_m_l := PyInt (10 ^ 400)\<rparr>) = Inl OverflowError \<and>
   map_sum id m_l (CouplingElement_init_num (example_numargs\<lparr>num_m_l := PyInt (2 ^ 53 + 1)\<rparr>)) =
     Inr (2 ^ 53)"
proof -
  have bl: "bit_length (nat \<bar>10 ^ 400 :: int\<bar>) = 1329"
    using bit_length_eq [of 1328 "nat \<bar>10 ^ 400 :: int\<bar>"] by simp
  have big: "DBL_MAX < \<bar>int_to_double (10 ^ 400)\<bar>"
    unfolding int_to_double_def Let_def bl DBL_MAX_def by simp
  have raises: "py_float (PyInt (10 ^ 400)) = Inl OverflowError"
    using big by (simp add: py_float_def)
  have bl': "bit_length (nat \<bar>2 ^ 53 + 1 :: int\<bar>) = 54"
    using bit_length_eq [of 53 "nat \<bar>2 ^ 53 + 1 :: int\<bar>"] by simp
  have near: "int_to_double (2 ^ 53 + 1) = 2 ^ 53"
    unfolding int_to_double_def Let_def bl' by simp
  have conv: "list_all converts (numeric_args (example_numargs\<lparr>num_m_l := PyInt (2 ^ 53 + 1)\<rparr>))"
    using near
    by (simp add: numeric_args_def example_numargs_def given_simps converts_simps)
      (simp add: converts_def DBL_MAX_def)
  have first: "CouplingElement_init_num (example_numargs\<lparr>num_m_l := PyInt (10 ^ 400)\<rparr>)
      = Inl OverflowError"
    using raises by (simp add: CouplingElement_init_num_def bind_err_simps)
  have second: "map_sum id m_l (CouplingElement_init_num
      (example_numargs\<lparr>num_m_l := PyInt (2 ^ 53 + 1)\<rparr>)) = Inr (2 ^ 53)"
    using near by (subst init_num_ok [OF conv]) (simp add: as_float_def)
  from first second show ?thesis by (rule conjI)
qed

text \<open>
  Claim C10. Whatever the arguments, the constructed element of either class has
  \<open>beam_cg = 1e20\<close> and \<open>slenderness_ratio = 1e30\<close>, and the 6-DOF element has the outer
  diameter \<open>o_d = 150e-3\<close>.
\<close>

theorem sentinel_attributes:
  "beam_cg (CouplingElement_init a) = 10 ^ 20 \<and>
   slenderness_ratio (CouplingElement_init a) = 10 ^ 30 \<and>
   beam_cg (CouplingElement6DoF_init b) = 10 ^ 20 \<and>
   slenderness_ratio (CouplingElement6DoF_init b) = 10 ^ 30 \<and>
   o_d (CouplingElement6DoF_init b) = 150 / 1000"
  by (simp add: init_defs Let_def)

end
